theory Spec2Isabelle
  imports Main "HOL-Library.Word"
begin

section \<open>Shared vocabulary\<close>

text \<open>
  The C++ type \<open>int\<close> of the sources is a 32-bit two's complement integer: a
  \<open>32 word\<close>, read through \<open>sint\<close>. Addition on words wraps around; that is what the
  machine addition behind \<open>m_count + 1\<close> produces at \<open>INT_MAX\<close> (the C++ standard itself
  leaves signed overflow undefined). \<open>QString\<close> is a \<open>string\<close>.
\<close>

type_synonym cint = "32 word"

definition INT_MAX :: cint where
  "INT_MAX = 2147483647"

text \<open>
  A logging statement \<open>qInfo() << a << b\<close> is recorded with its severity and the
  operands streamed into it, in order.
\<close>

datatype log_arg = Lit string | Str string | Num cint

datatype log = QInfo "log_arg list" | QWarning "log_arg list" | QCritical "log_arg list"

text \<open>
  \<open>QString::arg\<close> replaces the lowest-numbered place marker of the format string by
  its argument. The sources call it on one format string only, whose single marker is
  \<open>%1\<close>, so the model replaces every \<open>%1\<close> and copies every other character.
\<close>

fun QString_arg :: "string \<Rightarrow> string \<Rightarrow> string" where
  "QString_arg (c # d # cs) a =
     (if c = CHR ''%'' \<and> d = CHR ''1'' then a @ QString_arg cs a
      else c # QString_arg (d # cs) a)"
| "QString_arg cs a = cs"

section \<open>The bridge object: backendobject.h, backendobject.cpp\<close>

record BackendObject =
  m_message :: string
  m_count :: cint

datatype signal =
  messageChanged string
| sendToFrontend string
| countChanged cint

datatype bridge_effect = Emit signal | Log log

text \<open>The constructor's initialiser list.\<close>

definition BackendObject_new :: BackendObject where
  "BackendObject_new = \<lparr>m_message = ''Hello from C++ backend!'', m_count = 0\<rparr>"

definition message :: "BackendObject \<Rightarrow> string" where
  "message s = m_message s"

definition count :: "BackendObject \<Rightarrow> cint" where
  "count s = m_count s"

text \<open>
  Every method takes the object's state and returns the new state with the effects of
  the call in the order they happen: the signals emitted and the lines logged.
\<close>

definition setMessage ::
  "string \<Rightarrow> BackendObject \<Rightarrow> BackendObject \<times> bridge_effect list" where
  "setMessage msg s =
     (if m_message s \<noteq> msg
      then (s\<lparr>m_message := msg\<rparr>, [Emit (messageChanged msg)])
      else (s, []))"

definition setCount ::
  "cint \<Rightarrow> BackendObject \<Rightarrow> BackendObject \<times> bridge_effect list" where
  "setCount n s =
     (if m_count s \<noteq> n
      then (s\<lparr>m_count := n\<rparr>,
            [Log (QInfo [Lit ''Backend received setCount with value:'', Num n]),
             Emit (countChanged n)])
      else (s, [Log (QInfo [Lit ''Backend received setCount with value:'', Num n])]))"

definition incrementCount ::
  "BackendObject \<Rightarrow> BackendObject \<times> bridge_effect list" where
  "incrementCount s =
     (case setCount (m_count s + 1) s of
        (s', es) \<Rightarrow>
          (s', Log (QInfo [Lit ''Backend incrementCount called, current count:'',
                           Num (m_count s)]) # es))"

definition sendToBackend ::
  "string \<Rightarrow> BackendObject \<Rightarrow> BackendObject \<times> bridge_effect list" where
  "sendToBackend text s =
     (s, [Emit (sendToFrontend (QString_arg ''Backend received: %1'' text))])"

text \<open>The notifications among the effects of a call: the signals, in order.\<close>

fun signals_of :: "bridge_effect list \<Rightarrow> signal list" where
  "signals_of [] = []"
| "signals_of (Emit sg # es) = sg # signals_of es"
| "signals_of (Log l # es) = signals_of es"

text \<open>
  What the web frontend and the native side can do to the object: write either
  property or invoke either slot. \<open>run\<close> performs a sequence of such calls.
\<close>

datatype call = SetMessage string | SetCount cint | IncrementCount | SendToBackend string

fun invoke :: "call \<Rightarrow> BackendObject \<Rightarrow> BackendObject \<times> bridge_effect list" where
  "invoke (SetMessage msg) s = setMessage msg s"
| "invoke (SetCount n) s = setCount n s"
| "invoke IncrementCount s = incrementCount s"
| "invoke (SendToBackend text) s = sendToBackend text s"

fun run :: "BackendObject \<Rightarrow> call list \<Rightarrow> BackendObject \<times> bridge_effect list" where
  "run s [] = (s, [])"
| "run s (c # cs) =
     (case invoke c s of
        (s', es) \<Rightarrow> (case run s' cs of (s'', es') \<Rightarrow> (s'', es @ es')))"

text \<open>
  The spec's wording of \<open>incrementCount\<close>: \<open>setCount(current + 1)\<close>.
\<close>

definition incrementCount_spec ::
  "BackendObject \<Rightarrow> BackendObject \<times> bridge_effect list" where
  "incrementCount_spec s = setCount (count s + 1) s"

text \<open>
  A call sequence that writes no negative count and never increments at \<open>INT_MAX\<close>.
\<close>

fun admissible :: "BackendObject \<Rightarrow> call list \<Rightarrow> bool" where
  "admissible s [] = True"
| "admissible s (SetCount n # cs) = (0 \<le> sint n \<and> admissible (fst (setCount n s)) cs)"
| "admissible s (IncrementCount # cs) =
     (m_count s \<noteq> INT_MAX \<and> admissible (fst (incrementCount s)) cs)"
| "admissible s (c # cs) = admissible (fst (invoke c s)) cs"

section \<open>Frontend resolution: app/app_setup.cpp, app/main.cpp, main.cpp\<close>

text \<open>
  The two options of the command line that the resolution reads: \<open>isSet\<close> and
  \<open>value\<close> of \<open>dev-server\<close> and of \<open>frontend-path\<close>. \<open>None\<close> is an option that was
  not given.
\<close>

record QCommandLineParser =
  dev_server :: "string option"
  frontend_path :: "string option"

text \<open>
  What the resolution reads from its surroundings: the application directory, the
  working directory, the file system through \<open>QDir::exists\<close> and
  \<open>QFileInfo::exists\<close>, and Qt's verdict \<open>isValid\<close> on a URL made from a string or
  from a local file name.
\<close>

record environment =
  applicationDirPath :: string
  currentPath :: string
  QDir_exists :: "string \<Rightarrow> bool"
  QFileInfo_exists :: "string \<Rightarrow> bool"
  string_url_valid :: "string \<Rightarrow> bool"
  local_file_url_valid :: "string \<Rightarrow> bool"

text \<open>
  The three ways the sources make a URL: \<open>QUrl()\<close>, \<open>QUrl(devServerUrl)\<close> and
  \<open>QUrl::fromLocalFile(indexPath)\<close>. The default-constructed URL is empty and
  never valid.
\<close>

datatype QUrl = QUrl_default | QUrl_string string | QUrl_fromLocalFile string

fun isValid :: "environment \<Rightarrow> QUrl \<Rightarrow> bool" where
  "isValid env QUrl_default = False"
| "isValid env (QUrl_string s) = string_url_valid env s"
| "isValid env (QUrl_fromLocalFile p) = local_file_url_valid env p"

text \<open>
  The effects of the resolution, in order: each question put to the file system and
  each line logged.
\<close>

datatype startup_effect = DirExists string | FileExists string | Logged log

text \<open>
  The \<open>for\<close> loop over \<open>possiblePaths\<close>: it stops at the first directory that
  exists. \<open>before\<close> is what the loop body does before asking (\<open>main.cpp\<close> logs the
  path it is about to check, \<open>app_setup.cpp\<close> does nothing). The result is
  \<open>Some path\<close> when \<open>found\<close> is set, with the new \<open>frontendPath\<close>.
\<close>

fun probe_loop ::
  "(string \<Rightarrow> startup_effect list) \<Rightarrow> (string \<Rightarrow> bool) \<Rightarrow> string list \<Rightarrow>
   string option \<times> startup_effect list" where
  "probe_loop before ex [] = (None, [])"
| "probe_loop before ex (path # paths) =
     (if ex path
      then (Some path,
            before path @ [DirExists path, Logged (QInfo [Lit ''Found frontend at:'', Str path])])
      else (case probe_loop before ex paths of
              (found, es) \<Rightarrow> (found, before path @ DirExists path # es)))"

definition possiblePaths :: "environment \<Rightarrow> string list" where
  "possiblePaths env =
     [applicationDirPath env @ ''/frontend/dist'',
      currentPath env @ ''/frontend/dist'',
      currentPath env @ ''/../frontend/dist'',
      currentPath env @ ''/../../frontend/dist'',
      currentPath env @ ''/../../../frontend/dist'']"

definition no_frontend_directory :: "startup_effect list" where
  "no_frontend_directory =
     [Logged (QCritical
        [Lit ''Could not find frontend directory in any of the expected locations.'']),
      Logged (QInfo [Lit ''Please specify the frontend path with --frontend-path option.''])]"

definition index_not_found :: "string \<Rightarrow> startup_effect list" where
  "index_not_found indexPath =
     [Logged (QCritical [Lit ''index.html not found at:'', Str indexPath]),
      Logged (QInfo
        [Lit (''Make sure you've built the frontend with 'npm run frontend:build'' @
              [CHR 0x27])])]"

text \<open>\<open>resolveFrontendUrl\<close> of \<open>app/app_setup.cpp\<close>.\<close>

definition resolveFrontendUrl ::
  "environment \<Rightarrow> QCommandLineParser \<Rightarrow> QUrl \<times> startup_effect list" where
  "resolveFrontendUrl env parser =
     (case dev_server parser of
        Some devServerUrl \<Rightarrow>
          (QUrl_string devServerUrl,
           [Logged (QInfo [Lit ''Loading frontend from dev server:'', Str devServerUrl])])
      | None \<Rightarrow>
          (case
             (case frontend_path parser of
                Some path \<Rightarrow>
                  (Some path,
                   [Logged (QInfo [Lit ''Using provided frontend path:'', Str path])])
              | None \<Rightarrow>
                  (let frontendPath = applicationDirPath env @ ''/../frontend/dist'' in
                   if QDir_exists env frontendPath
                   then (Some frontendPath, [DirExists frontendPath])
                   else
                     (case probe_loop (\<lambda>path. []) (QDir_exists env) (possiblePaths env) of
                        (Some path, es) \<Rightarrow> (Some path, DirExists frontendPath # es)
                      | (None, es) \<Rightarrow>
                          (None, DirExists frontendPath # es @ no_frontend_directory))))
           of
             (None, es) \<Rightarrow> (QUrl_default, es)
           | (Some frontendPath, es) \<Rightarrow>
               (let indexPath = frontendPath @ ''/index.html'' in
                if \<not> QFileInfo_exists env indexPath
                then (QUrl_default, es @ FileExists indexPath # index_not_found indexPath)
                else (QUrl_fromLocalFile indexPath,
                      es @ [FileExists indexPath,
                            Logged (QInfo [Lit ''Loading frontend from:'', Str indexPath])]))))"

text \<open>
  How the start-up ends as far as the frontend URL decides it: \<open>main\<close> returns the
  exit code before any window is shown, or loads the URL into the web view and enters
  the event loop.
\<close>

datatype outcome = Exit cint | EventLoop QUrl

text \<open>\<open>main\<close> of \<open>app/main.cpp\<close>, from the call of \<open>resolveFrontendUrl\<close> on.\<close>

definition app_main :: "environment \<Rightarrow> QCommandLineParser \<Rightarrow> outcome \<times> startup_effect list" where
  "app_main env parser =
     (case resolveFrontendUrl env parser of
        (frontendUrl, es) \<Rightarrow>
          (if \<not> isValid env frontendUrl then (Exit 1, es) else (EventLoop frontendUrl, es)))"

text \<open>
  \<open>main\<close> of \<open>main.cpp\<close>, from "Determine the frontend URL" on: the same search
  written inline, with more logging, and \<open>return 1\<close> at each failure.
\<close>

definition main_cpp :: "environment \<Rightarrow> QCommandLineParser \<Rightarrow> outcome \<times> startup_effect list" where
  "main_cpp env parser =
     (case dev_server parser of
        Some devServerUrl \<Rightarrow>
          (EventLoop (QUrl_string devServerUrl),
           [Logged (QInfo [Lit ''Loading frontend from dev server:'', Str devServerUrl])])
      | None \<Rightarrow>
          (case
             (case frontend_path parser of
                Some path \<Rightarrow>
                  (Some path,
                   [Logged (QInfo [Lit ''Using provided frontend path:'', Str path])])
              | None \<Rightarrow>
                  (let frontendPath = applicationDirPath env @ ''/../frontend/dist'' in
                   if QDir_exists env frontendPath
                   then (Some frontendPath, [DirExists frontendPath])
                   else
                     (case probe_loop
                             (\<lambda>path. [Logged (QInfo [Lit ''Checking for frontend at:'', Str path])])
                             (QDir_exists env) (possiblePaths env) of
                        (Some path, es) \<Rightarrow>
                          (Some path,
                           DirExists frontendPath #
                           Logged (QWarning [Lit ''Frontend directory not found at:'',
                                             Str frontendPath]) # es)
                      | (None, es) \<Rightarrow>
                          (None,
                           DirExists frontendPath #
                           Logged (QWarning [Lit ''Frontend directory not found at:'',
                                             Str frontendPath]) #
                           es @ no_frontend_directory))))
           of
             (None, es) \<Rightarrow> (Exit 1, es)
           | (Some frontendPath, es) \<Rightarrow>
               (let indexPath = frontendPath @ ''/index.html'' in
                if \<not> QFileInfo_exists env indexPath
                then (Exit 1, es @ FileExists indexPath # index_not_found indexPath)
                else (EventLoop (QUrl_fromLocalFile indexPath),
                      es @ [FileExists indexPath,
                            Logged (QInfo [Lit ''Loading frontend from:'', Str indexPath])]))))"

text \<open>Reading a trace: the directories and files asked for, and the critical lines.\<close>

fun dir_probes :: "startup_effect list \<Rightarrow> string list" where
  "dir_probes [] = []"
| "dir_probes (DirExists p # es) = p # dir_probes es"
| "dir_probes (e # es) = dir_probes es"

fun file_probes :: "startup_effect list \<Rightarrow> string list" where
  "file_probes [] = []"
| "file_probes (FileExists p # es) = p # file_probes es"
| "file_probes (e # es) = file_probes es"

fun criticals :: "startup_effect list \<Rightarrow> log_arg list list" where
  "criticals [] = []"
| "criticals (Logged (QCritical m) # es) = m # criticals es"
| "criticals (e # es) = criticals es"

text \<open>
  The spec's probe sequence, and the candidates a search in that order consults when
  it stops at the first match: those before the match, and the match.
\<close>

definition probe_candidates :: "environment \<Rightarrow> string list" where
  "probe_candidates env =
     [applicationDirPath env @ ''/../frontend/dist'',
      applicationDirPath env @ ''/frontend/dist'',
      currentPath env @ ''/frontend/dist'',
      currentPath env @ ''/../frontend/dist'',
      currentPath env @ ''/../../frontend/dist'',
      currentPath env @ ''/../../../frontend/dist'']"

fun consulted :: "(string \<Rightarrow> bool) \<Rightarrow> string list \<Rightarrow> string list" where
  "consulted ex [] = []"
| "consulted ex (p # ps) = (if ex p then [p] else p # consulted ex ps)"

text \<open>
  A file system for examples: the application lives in \<open>/opt/app/bin\<close>, the working
  directory is \<open>/work\<close>, and the only frontend is \<open>/work/frontend/dist\<close> with its
  \<open>index.html\<close> (the third candidate).
\<close>

definition third_candidate_env :: environment where
  "third_candidate_env =
     \<lparr>applicationDirPath = ''/opt/app/bin'',
      currentPath = ''/work'',
      QDir_exists = (\<lambda>p. p = ''/work/frontend/dist''),
      QFileInfo_exists = (\<lambda>p. p = ''/work/frontend/dist/index.html''),
      string_url_valid = (\<lambda>s. s \<noteq> []),
      local_file_url_valid = (\<lambda>p. p \<noteq> [])\<rparr>"

text \<open>The same place with no frontend directory anywhere.\<close>

definition no_frontend_env :: environment where
  "no_frontend_env =
     \<lparr>applicationDirPath = ''/opt/app/bin'',
      currentPath = ''/work'',
      QDir_exists = (\<lambda>p. False),
      QFileInfo_exists = (\<lambda>p. False),
      string_url_valid = (\<lambda>s. s \<noteq> []),
      local_file_url_valid = (\<lambda>p. p \<noteq> [])\<rparr>"

text \<open>
  A place whose frontend is given as \<open>//[x\<close>, with its \<open>index.html\<close> on disk.
  \<open>QUrl::fromLocalFile\<close> reads what follows a leading double slash as a host name, and
  here Qt's verdict on a name that begins this way, with a bracket that opens no
  address, is that the URL is not valid.
\<close>

definition rejected_file_url_env :: environment where
  "rejected_file_url_env =
     \<lparr>applicationDirPath = ''/opt/app/bin'',
      currentPath = ''/work'',
      QDir_exists = (\<lambda>p. p = ''//[x''),
      QFileInfo_exists = (\<lambda>p. p = ''//[x/index.html''),
      string_url_valid = (\<lambda>s. s \<noteq> []),
      local_file_url_valid = (\<lambda>p. p \<noteq> [] \<and> take 3 p \<noteq> ''//['')\<rparr>"

section \<open>Navigation policy: app/mywebpage.cpp\<close>

datatype NavigationType =
  NavigationTypeLinkClicked
| NavigationTypeTyped
| NavigationTypeFormSubmitted
| NavigationTypeBackForward
| NavigationTypeReload
| NavigationTypeOther
| NavigationTypeRedirect

text \<open>
  Of the requested URL the policy reads \<open>scheme()\<close> and, for the log,
  \<open>toString()\<close>.
\<close>

record request_url =
  scheme :: string
  toString :: string

datatype nav_effect = OpenUrl request_url | NavLogged log

text \<open>
  \<open>MyWebPage::acceptNavigationRequest\<close>. \<open>base\<close> is the implementation of the
  base class \<open>QWebEnginePage\<close>, to which every request that is not intercepted goes.
  The result is the returned flag (true: the page navigates) and the effects.
\<close>

definition acceptNavigationRequest ::
  "(request_url \<Rightarrow> NavigationType \<Rightarrow> bool \<Rightarrow> bool) \<Rightarrow>
   request_url \<Rightarrow> NavigationType \<Rightarrow> bool \<Rightarrow> bool \<times> nav_effect list" where
  "acceptNavigationRequest base url type isMainFrame =
     (if isMainFrame \<and> type = NavigationTypeLinkClicked
      then
        (if scheme url = ''http'' \<or> scheme url = ''https''
         then (False,
               [NavLogged (QInfo [Lit ''Intercepted link click to:'', Str (toString url),
                                  Lit ''. Opening externally.'']),
                OpenUrl url])
         else (base url type isMainFrame, []))
      else (base url type isMainFrame, []))"

text \<open>The URLs handed to the desktop's default handler.\<close>

fun opened_externally :: "nav_effect list \<Rightarrow> request_url list" where
  "opened_externally [] = []"
| "opened_externally (OpenUrl u # es) = u # opened_externally es"
| "opened_externally (NavLogged l # es) = opened_externally es"

text \<open>The spec's rule.\<close>

definition shouldInterceptNavigation :: "request_url \<Rightarrow> bool \<Rightarrow> bool \<Rightarrow> bool" where
  "shouldInterceptNavigation url isTopLevelFrame isUserLinkClick =
     (isTopLevelFrame \<and> isUserLinkClick \<and> (scheme url = ''http'' \<or> scheme url = ''https''))"

text \<open>Qt's own \<open>QWebEnginePage::acceptNavigationRequest\<close> accepts every request.\<close>

definition accept_all :: "request_url \<Rightarrow> NavigationType \<Rightarrow> bool \<Rightarrow> bool" where
  "accept_all url type isMainFrame = True"

section \<open>Context menu: mywebview.cpp\<close>

datatype WebAction = Back | Forward | Reload | ViewSource | InspectElement

datatype menu_entry =
  Separator
| PageAction WebAction
| OpenLinkInExternalBrowser string
| Copy string

text \<open>
  \<open>currentPage->action(a)\<close> is a pointer to an action, possibly null, and the action
  is enabled or not: \<open>None\<close> is the null pointer. Of the request the menu reads
  \<open>linkUrl()\<close> and \<open>selectedText()\<close>; either may be empty.
\<close>

record QWebEnginePage =
  action :: "WebAction \<Rightarrow> bool option"

record QWebEngineContextMenuRequest =
  linkUrl :: string
  selectedText :: string

definition action_enabled :: "QWebEnginePage \<Rightarrow> WebAction \<Rightarrow> bool" where
  "action_enabled currentPage a = (case action currentPage a of None \<Rightarrow> False | Some e \<Rightarrow> e)"

text \<open>\<open>QMenu::isEmpty\<close>: a menu with no action but separators is empty.\<close>

definition QMenu_isEmpty :: "menu_entry list \<Rightarrow> bool" where
  "QMenu_isEmpty menu = (filter (\<lambda>e. e \<noteq> Separator) menu = [])"

text \<open>
  The menu \<open>MyWebView::contextMenuEvent\<close> fills, statement by statement; \<open>menu\<close> is
  rebound by every statement that adds to it.
\<close>

definition build_menu :: "QWebEngineContextMenuRequest \<Rightarrow> QWebEnginePage \<Rightarrow> menu_entry list" where
  "build_menu request currentPage =
     (let menu = [];
          menu = (if action_enabled currentPage Back then menu @ [PageAction Back] else menu);
          menu = (if action_enabled currentPage Forward
                  then menu @ [PageAction Forward] else menu);
          menu = (if action_enabled currentPage Reload
                  then menu @ [PageAction Reload] else menu);
          hasStandardActions = \<not> QMenu_isEmpty menu;
          willHaveCustomLinkAction = (linkUrl request \<noteq> []);
          willHaveCustomCopyAction = (selectedText request \<noteq> []);
          menu = (if hasStandardActions \<and> (willHaveCustomLinkAction \<or> willHaveCustomCopyAction)
                  then menu @ [Separator] else menu);
          menu = (if willHaveCustomLinkAction
                  then menu @ [OpenLinkInExternalBrowser (linkUrl request)] else menu);
          menu = (if willHaveCustomCopyAction
                  then menu @ [Copy (selectedText request)] else menu);
          menu = (if action_enabled currentPage ViewSource
                  then (if \<not> QMenu_isEmpty menu \<and>
                           (willHaveCustomLinkAction \<or> willHaveCustomCopyAction \<or>
                            hasStandardActions)
                        then menu @ [Separator] else menu) @ [PageAction ViewSource]
                  else menu);
          menu = (if action_enabled currentPage InspectElement
                  then (if \<not> QMenu_isEmpty menu \<and>
                           (willHaveCustomLinkAction \<or> willHaveCustomCopyAction \<or>
                            hasStandardActions \<or> action_enabled currentPage ViewSource)
                        then menu @ [Separator] else menu) @ [PageAction InspectElement]
                  else menu)
      in menu)"

text \<open>
  The event handler: without a request or a page, and with an empty menu, the event
  goes to \<open>QWebEngineView::contextMenuEvent\<close>; otherwise the menu is shown.
\<close>

datatype menu_outcome = Exec "menu_entry list" | DefaultContextMenu

definition contextMenuEvent ::
  "QWebEngineContextMenuRequest option \<Rightarrow> QWebEnginePage option \<Rightarrow> menu_outcome" where
  "contextMenuEvent request currentPage =
     (case request of
        None \<Rightarrow> DefaultContextMenu
      | Some req \<Rightarrow>
          (case currentPage of
             None \<Rightarrow> DefaultContextMenu
           | Some pg \<Rightarrow>
               (let menu = build_menu req pg in
                if \<not> QMenu_isEmpty menu then Exec menu else DefaultContextMenu)))"

text \<open>
  The spec's groups, and a list of groups laid out with one separator between each two
  neighbouring groups that are not empty.
\<close>

definition standard_group :: "QWebEnginePage \<Rightarrow> menu_entry list" where
  "standard_group pg =
     (if action_enabled pg Back then [PageAction Back] else []) @
     (if action_enabled pg Forward then [PageAction Forward] else []) @
     (if action_enabled pg Reload then [PageAction Reload] else [])"

definition custom_group :: "QWebEngineContextMenuRequest \<Rightarrow> menu_entry list" where
  "custom_group req =
     (if linkUrl req \<noteq> [] then [OpenLinkInExternalBrowser (linkUrl req)] else []) @
     (if selectedText req \<noteq> [] then [Copy (selectedText req)] else [])"

definition view_source_group :: "QWebEnginePage \<Rightarrow> menu_entry list" where
  "view_source_group pg = (if action_enabled pg ViewSource then [PageAction ViewSource] else [])"

definition inspect_group :: "QWebEnginePage \<Rightarrow> menu_entry list" where
  "inspect_group pg =
     (if action_enabled pg InspectElement then [PageAction InspectElement] else [])"

fun join_groups :: "menu_entry list list \<Rightarrow> menu_entry list" where
  "join_groups [] = []"
| "join_groups (g # gs) =
     (if g = [] then join_groups gs
      else if join_groups gs = [] then g
      else g @ Separator # join_groups gs)"

text \<open>The entry right after the first \<open>n\<close> entries of a menu is a separator.\<close>

definition separator_at :: "nat \<Rightarrow> menu_entry list \<Rightarrow> bool" where
  "separator_at n menu = (take 1 (drop n menu) = [Separator])"

text \<open>A page that offers the listed actions, all enabled, and no other.\<close>

definition page_with :: "WebAction list \<Rightarrow> QWebEnginePage" where
  "page_with as = \<lparr>action = (\<lambda>a. if a \<in> set as then Some True else None)\<rparr>"

section \<open>Properties of the bridge object\<close>

lemma QString_arg_backend_received:
  "QString_arg ''Backend received: %1'' payload = ''Backend received: '' @ payload"
  by simp

lemma fst_run_Cons: "fst (run s (c # cs)) = fst (run (fst (invoke c s)) cs)"
  by (simp add: split_beta)

lemma m_count_setMessage: "m_count (fst (setMessage msg s)) = m_count s"
  by (simp add: setMessage_def)

lemma m_count_setCount: "m_count (fst (setCount n s)) = n"
  by (simp add: setCount_def)

lemma m_count_incrementCount: "m_count (fst (incrementCount s)) = m_count s + 1"
  by (simp add: incrementCount_def setCount_def)

lemma fst_sendToBackend: "fst (sendToBackend payload s) = s"
  by (simp add: sendToBackend_def)

text \<open>
  Adding one to a non-negative \<open>int\<close> below \<open>INT_MAX\<close> does not wrap.
\<close>

lemma sint_INT_MAX: "sint INT_MAX = 2147483647"
  by (simp add: INT_MAX_def)

lemma sint_succ_nonneg:
  assumes "0 \<le> sint (c :: cint)" and "c \<noteq> INT_MAX"
  shows "0 \<le> sint (c + 1)"
proof -
  have "sint c \<noteq> sint INT_MAX"
    using assms(2) signed_word_eqI by blast
  moreover have "sint c < 2 ^ 31"
    using sint_lt [of c] by simp
  ultimately have "sint c + 1 < 2 ^ 31"
    by (simp add: sint_INT_MAX)
  then have "signed_take_bit 31 (sint c + 1) = sint c + 1"
    using assms(1) by (simp add: signed_take_bit_int_eq_self)
  then show ?thesis
    using assms(1) by (simp add: sint_word_ariths)
qed

lemma admissible_nonneg:
  "0 \<le> sint (m_count s) \<Longrightarrow> admissible s cs \<Longrightarrow> 0 \<le> sint (m_count (fst (run s cs)))"
proof (induction cs arbitrary: s)
  case Nil
  then show ?case by simp
next
  case (Cons c cs)
  have step: "0 \<le> sint (m_count (fst (invoke c s)))"
  proof (cases c)
    case (SetMessage msg)
    with Cons.prems show ?thesis by (simp add: m_count_setMessage)
  next
    case (SetCount n)
    with Cons.prems show ?thesis by (simp add: m_count_setCount)
  next
    case IncrementCount
    with Cons.prems show ?thesis by (simp add: m_count_incrementCount sint_succ_nonneg)
  next
    case (SendToBackend payload)
    with Cons.prems show ?thesis by (simp add: fst_sendToBackend)
  qed
  have rest: "admissible (fst (invoke c s)) cs"
    using Cons.prems(2) by (cases c) simp_all
  show ?case
    unfolding fst_run_Cons using step rest by (rule Cons.IH)
qed

text \<open>
  Claim C5, as amended. \<open>setCount(n)\<close> emits exactly one \<open>countChanged\<close> when \<open>n\<close>
  differs from the current count and none when it is equal; \<open>setMessage(m)\<close> emits
  exactly one \<open>messageChanged\<close> when \<open>m\<close> differs from the current message and none
  otherwise. Two calls of \<open>setCount(5)\<close> in a row emit one notification in total from
  a state whose count is not 5, and none from a state whose count is 5 already.
\<close>

theorem setters_notify_on_change:
  "signals_of (snd (setCount n s)) = (if n \<noteq> count s then [countChanged n] else []) \<and>
   signals_of (snd (setMessage msg s)) =
     (if msg \<noteq> message s then [messageChanged msg] else []) \<and>
   signals_of (snd (run s [SetCount 5, SetCount 5])) =
     (if count s \<noteq> 5 then [countChanged 5] else [])"
  by (auto simp add: setCount_def setMessage_def count_def message_def)

text \<open>
  From the freshly constructed object the two calls of \<open>setCount(5)\<close> emit exactly one
  notification, and a differing \<open>setMessage\<close> emits one.
\<close>

theorem setters_notify_on_change_fresh:
  "signals_of (snd (run BackendObject_new [SetCount 5, SetCount 5])) = [countChanged 5] \<and>
   signals_of (snd (setMessage ''Hi'' BackendObject_new)) = [messageChanged ''Hi'']"
proof -
  have "count BackendObject_new \<noteq> 5" "''Hi'' \<noteq> message BackendObject_new"
    by (simp_all add: count_def message_def BackendObject_new_def)
  with setters_notify_on_change [of 5 BackendObject_new "''Hi''"] show ?thesis
    by simp
qed

text \<open>
  Claim C5 as stated fails: from a state whose count is 5 already, two calls of
  \<open>setCount(5)\<close> emit no notification at all, not one.
\<close>

theorem setCount_twice_from_five:
  "length (signals_of (snd (run \<lparr>m_message = ''Hello from C++ backend!'', m_count = 5\<rparr>
      [SetCount 5, SetCount 5]))) \<noteq> 1"
  by (simp add: setCount_def)

text \<open>
  Claim C6. \<open>incrementCount()\<close> does what \<open>setCount(current + 1)\<close> does: the same new
  state and the same notifications (it logs one line more). From count 5 it gives
  count 6 and exactly one \<open>countChanged\<close>.
\<close>

theorem incrementCount_is_setCount_succ:
  "fst (incrementCount s) = fst (incrementCount_spec s) \<and>
   signals_of (snd (incrementCount s)) = signals_of (snd (incrementCount_spec s)) \<and>
   (count s = 5 \<longrightarrow>
      count (fst (incrementCount s)) = 6 \<and>
      signals_of (snd (incrementCount s)) = [countChanged 6])"
  by (auto simp add: incrementCount_def incrementCount_spec_def count_def setCount_def)

theorem incrementCount_from_five:
  "count \<lparr>m_message = ''m'', m_count = 5\<rparr> = 5 \<and>
   count (fst (incrementCount \<lparr>m_message = ''m'', m_count = 5\<rparr>)) = 6 \<and>
   signals_of (snd (incrementCount \<lparr>m_message = ''m'', m_count = 5\<rparr>)) = [countChanged 6]"
proof -
  have h: "count \<lparr>m_message = ''m'', m_count = 5\<rparr> = 5"
    by (simp add: count_def)
  with incrementCount_is_setCount_succ [of "\<lparr>m_message = ''m'', m_count = 5\<rparr>"]
  show ?thesis by blast
qed

text \<open>
  Claim C7. \<open>sendToBackend(text)\<close> leaves the object as it is, message and count
  included, and its only effect is one \<open>sendToFrontend\<close> signal that carries
  \<open>"Backend received: "\<close> followed by the text.
\<close>

theorem sendToBackend_echo:
  "sendToBackend payload s = (s, [Emit (sendToFrontend (''Backend received: '' @ payload))])"
  by (simp add: sendToBackend_def)

theorem sendToBackend_echo_ping:
  "sendToBackend ''ping'' BackendObject_new =
     (BackendObject_new, [Emit (sendToFrontend ''Backend received: ping'')])"
  using sendToBackend_echo [of "''ping''" BackendObject_new] by simp

text \<open>
  Claim C8, as amended. In every state reached from construction by a sequence of
  \<open>setMessage\<close>, \<open>setCount\<close>, \<open>incrementCount\<close> and \<open>sendToBackend\<close> calls in which
  every \<open>setCount\<close> argument is non-negative and no \<open>incrementCount\<close> happens at
  \<open>INT_MAX\<close>, the count is non-negative. \<open>setCount\<close> itself stores any \<open>int\<close> it is
  given, whatever its sign.
\<close>

theorem count_nonneg_invariant:
  "(admissible BackendObject_new cs \<longrightarrow>
      0 \<le> sint (count (fst (run BackendObject_new cs)))) \<and>
   count (fst (setCount n s)) = n"
proof -
  have "0 \<le> sint (m_count (fst (run BackendObject_new cs)))"
    if "admissible BackendObject_new cs"
    using _ that by (rule admissible_nonneg) (simp add: BackendObject_new_def)
  then show ?thesis
    by (simp add: count_def m_count_setCount)
qed

theorem count_nonneg_invariant_example:
  "admissible BackendObject_new
     [SetCount 5, IncrementCount, SetMessage ''a'', SendToBackend ''b''] \<and>
   0 \<le> sint (count (fst (run BackendObject_new
     [SetCount 5, IncrementCount, SetMessage ''a'', SendToBackend ''b''])))"
proof -
  have a: "admissible BackendObject_new
      [SetCount 5, IncrementCount, SetMessage ''a'', SendToBackend ''b'']"
    by (simp add: BackendObject_new_def setCount_def incrementCount_def setMessage_def
        sendToBackend_def INT_MAX_def)
  with count_nonneg_invariant
    [of "[SetCount 5, IncrementCount, SetMessage ''a'', SendToBackend ''b'']"]
  show ?thesis by blast
qed

text \<open>
  Claim C8 as stated fails: \<open>setCount\<close> stores whatever it is given, so one write of
  \<open>-1\<close> to the count property of the fresh object leaves a negative count.
\<close>

theorem setCount_stores_negative:
  "\<not> 0 \<le> sint (count (fst (run BackendObject_new [SetCount (- 1)])))"
  by (simp add: BackendObject_new_def setCount_def count_def)

text \<open>
  Claim C10. The constructed object has the message \<open>"Hello from C++ backend!"\<close> and
  the count 0. On it, \<open>setMessage\<close> with any other message and \<open>setCount\<close> with any
  other count emit their notification, and \<open>setCount(0)\<close> emits none.
\<close>

theorem fresh_object:
  "message BackendObject_new = ''Hello from C++ backend!'' \<and>
   count BackendObject_new = 0 \<and>
   (msg \<noteq> ''Hello from C++ backend!'' \<longrightarrow>
      signals_of (snd (setMessage msg BackendObject_new)) = [messageChanged msg]) \<and>
   (n \<noteq> 0 \<longrightarrow> signals_of (snd (setCount n BackendObject_new)) = [countChanged n]) \<and>
   signals_of (snd (setCount 0 BackendObject_new)) = []"
  by (auto simp add: BackendObject_new_def setMessage_def setCount_def message_def count_def)

theorem fresh_object_first_calls:
  "signals_of (snd (setMessage ''Hi'' BackendObject_new)) = [messageChanged ''Hi''] \<and>
   signals_of (snd (setCount 7 BackendObject_new)) = [countChanged 7]"
  using fresh_object [of "''Hi''" 7] by simp

section \<open>Properties of the frontend resolution\<close>

lemma dir_probes_append: "dir_probes (xs @ ys) = dir_probes xs @ dir_probes ys"
  by (induction xs rule: dir_probes.induct) simp_all

lemma file_probes_append: "file_probes (xs @ ys) = file_probes xs @ file_probes ys"
  by (induction xs rule: file_probes.induct) simp_all

lemma criticals_append: "criticals (xs @ ys) = criticals xs @ criticals ys"
  by (induction xs rule: criticals.induct) simp_all

lemma criticals_no_frontend_directory:
  "criticals no_frontend_directory =
     [[Lit ''Could not find frontend directory in any of the expected locations.'']]"
  by (simp add: no_frontend_directory_def)

lemma probes_no_frontend_directory:
  "dir_probes no_frontend_directory = []" "file_probes no_frontend_directory = []"
  by (simp_all add: no_frontend_directory_def)

lemma probes_index_not_found:
  "dir_probes (index_not_found p) = []" "file_probes (index_not_found p) = []"
  by (simp_all add: index_not_found_def)

lemma criticals_index_not_found:
  "criticals (index_not_found p) = [[Lit ''index.html not found at:'', Str p]]"
  by (simp add: index_not_found_def)

lemmas trace_simps =
  dir_probes_append file_probes_append criticals_append
  criticals_no_frontend_directory probes_no_frontend_directory
  probes_index_not_found criticals_index_not_found

text \<open>
  The loop returns the first path that exists and asks for the paths up to it, in
  order, and for no other.
\<close>

lemma probe_loop_found: "fst (probe_loop b ex ps) = find ex ps"
  by (induction ps) (simp_all add: split_beta)

lemma probe_loop_dirs:
  "(\<And>p. dir_probes (b p) = []) \<Longrightarrow> dir_probes (snd (probe_loop b ex ps)) = consulted ex ps"
  by (induction ps) (simp_all add: dir_probes_append split_beta)

lemma probe_loop_files:
  "(\<And>p. file_probes (b p) = []) \<Longrightarrow> file_probes (snd (probe_loop b ex ps)) = []"
  by (induction ps) (simp_all add: file_probes_append split_beta)

lemma probe_loop_criticals:
  "(\<And>p. criticals (b p) = []) \<Longrightarrow> criticals (snd (probe_loop b ex ps)) = []"
  by (induction ps) (simp_all add: criticals_append split_beta)

lemma probe_loop_cases:
  assumes "\<And>p. dir_probes (b p) = []" "\<And>p. file_probes (b p) = []" "\<And>p. criticals (b p) = []"
  obtains r es where
    "probe_loop b ex ps = (r, es)" "r = find ex ps" "dir_probes es = consulted ex ps"
    "file_probes es = []" "criticals es = []"
proof -
  obtain r es where pl: "probe_loop b ex ps = (r, es)"
    by (cases "probe_loop b ex ps") simp
  have "r = find ex ps"
    using probe_loop_found [of b ex ps] pl by simp
  moreover have "dir_probes es = consulted ex ps"
    using probe_loop_dirs [of b ex ps] assms(1) pl by simp
  moreover have "file_probes es = []"
    using probe_loop_files [of b ex ps] assms(2) pl by simp
  moreover have "criticals es = []"
    using probe_loop_criticals [of b ex ps] assms(3) pl by simp
  ultimately show thesis
    using pl that by blast
qed

text \<open>
  The first candidate is asked for before the loop, the other five in the loop.
\<close>

lemma probe_candidates_Cons:
  "probe_candidates env = (applicationDirPath env @ ''/../frontend/dist'') # possiblePaths env"
  by (simp add: probe_candidates_def possiblePaths_def)

text \<open>
  With neither option given, what \<open>resolveFrontendUrl\<close> asks for, logs and returns,
  in terms of the first candidate that exists.
\<close>

lemma resolve_search:
  fixes env :: environment
  defines "r \<equiv> resolveFrontendUrl env \<lparr>dev_server = None, frontend_path = None\<rparr>"
  shows "dir_probes (snd r) = consulted (QDir_exists env) (probe_candidates env)"
    and "file_probes (snd r) =
       (case find (QDir_exists env) (probe_candidates env) of
          None \<Rightarrow> [] | Some d \<Rightarrow> [d @ ''/index.html''])"
    and "criticals (snd r) =
       (case find (QDir_exists env) (probe_candidates env) of
          None \<Rightarrow>
            [[Lit ''Could not find frontend directory in any of the expected locations.'']]
        | Some d \<Rightarrow>
            if QFileInfo_exists env (d @ ''/index.html'') then []
            else [[Lit ''index.html not found at:'', Str (d @ ''/index.html'')]])"
    and "fst r =
       (case find (QDir_exists env) (probe_candidates env) of
          None \<Rightarrow> QUrl_default
        | Some d \<Rightarrow>
            if QFileInfo_exists env (d @ ''/index.html'')
            then QUrl_fromLocalFile (d @ ''/index.html'') else QUrl_default)"
proof -
  obtain found es where pl:
    "probe_loop (\<lambda>path. []) (QDir_exists env) (possiblePaths env) = (found, es)"
    "found = find (QDir_exists env) (possiblePaths env)"
    "dir_probes es = consulted (QDir_exists env) (possiblePaths env)"
    "file_probes es = []" "criticals es = []"
    by (rule probe_loop_cases
          [of "\<lambda>path. []" "QDir_exists env" "possiblePaths env"]) simp_all
  show "dir_probes (snd r) = consulted (QDir_exists env) (probe_candidates env)"
    using pl(2-) unfolding r_def
    by (simp add: resolveFrontendUrl_def probe_candidates_Cons pl(1) Let_def trace_simps
        split: option.splits)
  show "file_probes (snd r) =
       (case find (QDir_exists env) (probe_candidates env) of
          None \<Rightarrow> [] | Some d \<Rightarrow> [d @ ''/index.html''])"
    using pl(2-) unfolding r_def
    by (simp add: resolveFrontendUrl_def probe_candidates_Cons pl(1) Let_def trace_simps
        split: option.splits)
  show "criticals (snd r) =
       (case find (QDir_exists env) (probe_candidates env) of
          None \<Rightarrow>
            [[Lit ''Could not find frontend directory in any of the expected locations.'']]
        | Some d \<Rightarrow>
            if QFileInfo_exists env (d @ ''/index.html'') then []
            else [[Lit ''index.html not found at:'', Str (d @ ''/index.html'')]])"
    using pl(2-) unfolding r_def
    by (simp add: resolveFrontendUrl_def probe_candidates_Cons pl(1) Let_def trace_simps
        split: option.splits)
  show "fst r =
       (case find (QDir_exists env) (probe_candidates env) of
          None \<Rightarrow> QUrl_default
        | Some d \<Rightarrow>
            if QFileInfo_exists env (d @ ''/index.html'')
            then QUrl_fromLocalFile (d @ ''/index.html'') else QUrl_default)"
    using pl(2-) unfolding r_def
    by (simp add: resolveFrontendUrl_def probe_candidates_Cons pl(1) Let_def trace_simps
        split: option.splits)
qed

text \<open>The same for the search written inline in \<open>main.cpp\<close>.\<close>

lemma main_cpp_search:
  fixes env :: environment
  defines "r \<equiv> main_cpp env \<lparr>dev_server = None, frontend_path = None\<rparr>"
  shows "dir_probes (snd r) = consulted (QDir_exists env) (probe_candidates env)"
    and "file_probes (snd r) =
       (case find (QDir_exists env) (probe_candidates env) of
          None \<Rightarrow> [] | Some d \<Rightarrow> [d @ ''/index.html''])"
    and "criticals (snd r) =
       (case find (QDir_exists env) (probe_candidates env) of
          None \<Rightarrow>
            [[Lit ''Could not find frontend directory in any of the expected locations.'']]
        | Some d \<Rightarrow>
            if QFileInfo_exists env (d @ ''/index.html'') then []
            else [[Lit ''index.html not found at:'', Str (d @ ''/index.html'')]])"
    and "fst r =
       (case find (QDir_exists env) (probe_candidates env) of
          None \<Rightarrow> Exit 1
        | Some d \<Rightarrow>
            if QFileInfo_exists env (d @ ''/index.html'')
            then EventLoop (QUrl_fromLocalFile (d @ ''/index.html'')) else Exit 1)"
proof -
  obtain found es where pl:
    "probe_loop (\<lambda>path. [Logged (QInfo [Lit ''Checking for frontend at:'', Str path])]) (QDir_exists env) (possiblePaths env) = (found, es)"
    "found = find (QDir_exists env) (possiblePaths env)"
    "dir_probes es = consulted (QDir_exists env) (possiblePaths env)"
    "file_probes es = []" "criticals es = []"
    by (rule probe_loop_cases
          [of "\<lambda>path. [Logged (QInfo [Lit ''Checking for frontend at:'', Str path])]" "QDir_exists env" "possiblePaths env"]) simp_all
  show "dir_probes (snd r) = consulted (QDir_exists env) (probe_candidates env)"
    using pl(2-) unfolding r_def
    by (simp add: main_cpp_def probe_candidates_Cons pl(1) Let_def trace_simps
        split: option.splits)
  show "file_probes (snd r) =
       (case find (QDir_exists env) (probe_candidates env) of
          None \<Rightarrow> [] | Some d \<Rightarrow> [d @ ''/index.html''])"
    using pl(2-) unfolding r_def
    by (simp add: main_cpp_def probe_candidates_Cons pl(1) Let_def trace_simps
        split: option.splits)
  show "criticals (snd r) =
       (case find (QDir_exists env) (probe_candidates env) of
          None \<Rightarrow>
            [[Lit ''Could not find frontend directory in any of the expected locations.'']]
        | Some d \<Rightarrow>
            if QFileInfo_exists env (d @ ''/index.html'') then []
            else [[Lit ''index.html not found at:'', Str (d @ ''/index.html'')]])"
    using pl(2-) unfolding r_def
    by (simp add: main_cpp_def probe_candidates_Cons pl(1) Let_def trace_simps
        split: option.splits)
  show "fst r =
       (case find (QDir_exists env) (probe_candidates env) of
          None \<Rightarrow> Exit 1
        | Some d \<Rightarrow>
            if QFileInfo_exists env (d @ ''/index.html'')
            then EventLoop (QUrl_fromLocalFile (d @ ''/index.html'')) else Exit 1)"
    using pl(2-) unfolding r_def
    by (simp add: main_cpp_def probe_candidates_Cons pl(1) Let_def trace_simps
        split: option.splits)
qed

text \<open>
  Claim C1. With neither \<open>devServerUrl\<close> nor \<open>frontendPath\<close> given, the resolution (in
  \<open>app_setup.cpp\<close> and inline in \<open>main.cpp\<close>) asks for the six candidates
  \<open>{appDir}/../frontend/dist\<close>, \<open>{appDir}/frontend/dist\<close>, \<open>{cwd}/frontend/dist\<close>,
  \<open>{cwd}/../frontend/dist\<close>, \<open>{cwd}/../../frontend/dist\<close>,
  \<open>{cwd}/../../../frontend/dist\<close> in this order and stops asking at the first that
  exists. That directory is the one whose \<open>index.html\<close> is then looked for. If none of
  the six exists the resolution fails for want of a frontend directory: it returns the
  invalid URL, reports "Could not find frontend directory ...", never looks for an
  \<open>index.html\<close>, and the process exits with code 1.
\<close>

theorem probe_order_first_match:
  "dir_probes (snd (resolveFrontendUrl env \<lparr>dev_server = None, frontend_path = None\<rparr>)) =
     consulted (QDir_exists env) (probe_candidates env) \<and>
   dir_probes (snd (main_cpp env \<lparr>dev_server = None, frontend_path = None\<rparr>)) =
     consulted (QDir_exists env) (probe_candidates env) \<and>
   (find (QDir_exists env) (probe_candidates env) = Some d \<longrightarrow>
      file_probes (snd (resolveFrontendUrl env \<lparr>dev_server = None, frontend_path = None\<rparr>)) =
        [d @ ''/index.html''] \<and>
      fst (resolveFrontendUrl env \<lparr>dev_server = None, frontend_path = None\<rparr>) =
        (if QFileInfo_exists env (d @ ''/index.html'')
         then QUrl_fromLocalFile (d @ ''/index.html'') else QUrl_default) \<and>
      file_probes (snd (main_cpp env \<lparr>dev_server = None, frontend_path = None\<rparr>)) =
        [d @ ''/index.html''] \<and>
      fst (main_cpp env \<lparr>dev_server = None, frontend_path = None\<rparr>) =
        (if QFileInfo_exists env (d @ ''/index.html'')
         then EventLoop (QUrl_fromLocalFile (d @ ''/index.html'')) else Exit 1)) \<and>
   (find (QDir_exists env) (probe_candidates env) = None \<longrightarrow>
      fst (resolveFrontendUrl env \<lparr>dev_server = None, frontend_path = None\<rparr>) = QUrl_default \<and>
      file_probes (snd (resolveFrontendUrl env \<lparr>dev_server = None, frontend_path = None\<rparr>)) = [] \<and>
      criticals (snd (resolveFrontendUrl env \<lparr>dev_server = None, frontend_path = None\<rparr>)) =
        [[Lit ''Could not find frontend directory in any of the expected locations.'']] \<and>
      fst (app_main env \<lparr>dev_server = None, frontend_path = None\<rparr>) = Exit 1 \<and>
      fst (main_cpp env \<lparr>dev_server = None, frontend_path = None\<rparr>) = Exit 1 \<and>
      file_probes (snd (main_cpp env \<lparr>dev_server = None, frontend_path = None\<rparr>)) = [] \<and>
      criticals (snd (main_cpp env \<lparr>dev_server = None, frontend_path = None\<rparr>)) =
        [[Lit ''Could not find frontend directory in any of the expected locations.'']])"
proof -
  have "find (QDir_exists env) (probe_candidates env) = None \<Longrightarrow>
      fst (app_main env \<lparr>dev_server = None, frontend_path = None\<rparr>) = Exit 1"
    using resolve_search(4) [of env] by (simp add: app_main_def split_beta)
  then show ?thesis
    by (simp add: resolve_search main_cpp_search)
qed

text \<open>
  The fixture with the frontend at the third candidate only: the first three candidates
  are asked for, in order, and the entry file of the third is the result. The fixture
  with no frontend directory: all six are asked for and the start-up ends with code 1.
\<close>

theorem probe_order_third_candidate:
  "consulted (QDir_exists third_candidate_env) (probe_candidates third_candidate_env) =
     [''/opt/app/bin/../frontend/dist'', ''/opt/app/bin/frontend/dist'', ''/work/frontend/dist''] \<and>
   dir_probes (snd (resolveFrontendUrl third_candidate_env
       \<lparr>dev_server = None, frontend_path = None\<rparr>)) =
     [''/opt/app/bin/../frontend/dist'', ''/opt/app/bin/frontend/dist'', ''/work/frontend/dist''] \<and>
   find (QDir_exists third_candidate_env) (probe_candidates third_candidate_env) =
     Some ''/work/frontend/dist'' \<and>
   fst (resolveFrontendUrl third_candidate_env \<lparr>dev_server = None, frontend_path = None\<rparr>) =
     QUrl_fromLocalFile ''/work/frontend/dist/index.html'' \<and>
   fst (main_cpp third_candidate_env \<lparr>dev_server = None, frontend_path = None\<rparr>) =
     EventLoop (QUrl_fromLocalFile ''/work/frontend/dist/index.html'') \<and>
   find (QDir_exists no_frontend_env) (probe_candidates no_frontend_env) = None \<and>
   dir_probes (snd (resolveFrontendUrl no_frontend_env
       \<lparr>dev_server = None, frontend_path = None\<rparr>)) =
     [''/opt/app/bin/../frontend/dist'', ''/opt/app/bin/frontend/dist'', ''/work/frontend/dist'',
      ''/work/../frontend/dist'', ''/work/../../frontend/dist'',
      ''/work/../../../frontend/dist''] \<and>
   fst (resolveFrontendUrl no_frontend_env \<lparr>dev_server = None, frontend_path = None\<rparr>) =
     QUrl_default \<and>
   fst (app_main no_frontend_env \<lparr>dev_server = None, frontend_path = None\<rparr>) = Exit 1 \<and>
   fst (main_cpp no_frontend_env \<lparr>dev_server = None, frontend_path = None\<rparr>) = Exit 1"
proof -
  have f: "find (QDir_exists third_candidate_env) (probe_candidates third_candidate_env) =
      Some ''/work/frontend/dist''"
    by (simp add: third_candidate_env_def probe_candidates_def)
  have c: "consulted (QDir_exists third_candidate_env) (probe_candidates third_candidate_env) =
     [''/opt/app/bin/../frontend/dist'', ''/opt/app/bin/frontend/dist'', ''/work/frontend/dist'']"
    by (simp add: third_candidate_env_def probe_candidates_def)
  have e: "QFileInfo_exists third_candidate_env (''/work/frontend/dist'' @ ''/index.html'')"
    by (simp add: third_candidate_env_def)
  have n: "find (QDir_exists no_frontend_env) (probe_candidates no_frontend_env) = None"
    by (simp add: no_frontend_env_def probe_candidates_def)
  have a: "consulted (QDir_exists no_frontend_env) (probe_candidates no_frontend_env) =
     [''/opt/app/bin/../frontend/dist'', ''/opt/app/bin/frontend/dist'', ''/work/frontend/dist'',
      ''/work/../frontend/dist'', ''/work/../../frontend/dist'',
      ''/work/../../../frontend/dist'']"
    by (simp add: no_frontend_env_def probe_candidates_def)
  from probe_order_first_match [of third_candidate_env "''/work/frontend/dist''"]
    probe_order_first_match [of no_frontend_env] f c e n a
  show ?thesis by simp
qed

text \<open>
  Claim C2. Whatever else is given, a dev-server URL is the result as it stands: the
  resolution logs one line and asks the file system nothing, with or without a
  frontend path (\<open>fp\<close> is any value of that option), and \<open>app/main.cpp\<close> then only asks
  Qt whether the URL is well-formed. Without a dev-server URL, a given frontend path in
  turn keeps every candidate directory from being asked for: only its \<open>index.html\<close> is
  looked up.
\<close>

theorem dev_server_then_frontend_path:
  "resolveFrontendUrl env \<lparr>dev_server = Some u, frontend_path = fp\<rparr> =
     (QUrl_string u, [Logged (QInfo [Lit ''Loading frontend from dev server:'', Str u])]) \<and>
   main_cpp env \<lparr>dev_server = Some u, frontend_path = fp\<rparr> =
     (EventLoop (QUrl_string u),
      [Logged (QInfo [Lit ''Loading frontend from dev server:'', Str u])]) \<and>
   fst (app_main env \<lparr>dev_server = Some u, frontend_path = fp\<rparr>) =
     (if string_url_valid env u then EventLoop (QUrl_string u) else Exit 1) \<and>
   dir_probes (snd (resolveFrontendUrl env \<lparr>dev_server = None, frontend_path = Some p\<rparr>)) = [] \<and>
   file_probes (snd (resolveFrontendUrl env \<lparr>dev_server = None, frontend_path = Some p\<rparr>)) =
     [p @ ''/index.html''] \<and>
   dir_probes (snd (main_cpp env \<lparr>dev_server = None, frontend_path = Some p\<rparr>)) = [] \<and>
   file_probes (snd (main_cpp env \<lparr>dev_server = None, frontend_path = Some p\<rparr>)) =
     [p @ ''/index.html'']"
  by (simp add: resolveFrontendUrl_def main_cpp_def app_main_def Let_def probes_index_not_found)

theorem dev_server_then_frontend_path_example:
  "resolveFrontendUrl third_candidate_env
     \<lparr>dev_server = Some ''http://localhost:3000'', frontend_path = Some ''/x''\<rparr> =
     (QUrl_string ''http://localhost:3000'',
      [Logged (QInfo [Lit ''Loading frontend from dev server:'', Str ''http://localhost:3000''])]) \<and>
   fst (app_main third_candidate_env
     \<lparr>dev_server = Some ''http://localhost:3000'', frontend_path = Some ''/x''\<rparr>) =
     EventLoop (QUrl_string ''http://localhost:3000'') \<and>
   file_probes (snd (resolveFrontendUrl third_candidate_env
     \<lparr>dev_server = None, frontend_path = Some ''/x''\<rparr>)) = [''/x/index.html'']"
  using dev_server_then_frontend_path
    [of third_candidate_env "''http://localhost:3000''" "Some ''/x''" "''/x''"]
  by (simp add: third_candidate_env_def)

text \<open>
  Claim C3, as amended. With a frontend path and no dev-server URL, no directory is
  asked for: the path is taken as it is. \<open>resolveFrontendUrl\<close> returns the invalid URL
  exactly when \<open>{frontendPath}/index.html\<close> does not exist, and \<open>main.cpp\<close> returns 1
  exactly then. \<open>app/main.cpp\<close> returns 1 exactly when the file does not exist or
  \<open>QUrl::isValid\<close> rejects the file URL of the entry file; otherwise it loads that
  URL.
\<close>

theorem frontend_path_needs_index:
  "dir_probes (snd (resolveFrontendUrl env \<lparr>dev_server = None, frontend_path = Some p\<rparr>)) = [] \<and>
   dir_probes (snd (main_cpp env \<lparr>dev_server = None, frontend_path = Some p\<rparr>)) = [] \<and>
   (fst (resolveFrontendUrl env \<lparr>dev_server = None, frontend_path = Some p\<rparr>) = QUrl_default
      \<longleftrightarrow> \<not> QFileInfo_exists env (p @ ''/index.html'')) \<and>
   (fst (main_cpp env \<lparr>dev_server = None, frontend_path = Some p\<rparr>) = Exit 1
      \<longleftrightarrow> \<not> QFileInfo_exists env (p @ ''/index.html'')) \<and>
   fst (app_main env \<lparr>dev_server = None, frontend_path = Some p\<rparr>) =
     (if QFileInfo_exists env (p @ ''/index.html'') \<and>
         local_file_url_valid env (p @ ''/index.html'')
      then EventLoop (QUrl_fromLocalFile (p @ ''/index.html'')) else Exit 1) \<and>
   (fst (app_main env \<lparr>dev_server = None, frontend_path = Some p\<rparr>) = Exit 1
      \<longleftrightarrow> \<not> QFileInfo_exists env (p @ ''/index.html'') \<or>
          \<not> local_file_url_valid env (p @ ''/index.html''))"
  by (simp add: resolveFrontendUrl_def main_cpp_def app_main_def Let_def probes_index_not_found)

text \<open>
  The path \<open>/x\<close> holds no \<open>index.html\<close>: the start-up ends with exit code 1. The path
  \<open>/work/frontend/dist\<close> holds one and Qt accepts its file URL: that URL is loaded.
\<close>

theorem frontend_path_needs_index_example:
  "\<not> QFileInfo_exists third_candidate_env (''/x'' @ ''/index.html'') \<and>
   fst (resolveFrontendUrl third_candidate_env
     \<lparr>dev_server = None, frontend_path = Some ''/x''\<rparr>) = QUrl_default \<and>
   fst (app_main third_candidate_env \<lparr>dev_server = None, frontend_path = Some ''/x''\<rparr>) = Exit 1 \<and>
   fst (main_cpp third_candidate_env \<lparr>dev_server = None, frontend_path = Some ''/x''\<rparr>) = Exit 1 \<and>
   QFileInfo_exists third_candidate_env (''/work/frontend/dist'' @ ''/index.html'') \<and>
   local_file_url_valid third_candidate_env (''/work/frontend/dist'' @ ''/index.html'') \<and>
   fst (app_main third_candidate_env
     \<lparr>dev_server = None, frontend_path = Some ''/work/frontend/dist''\<rparr>) =
     EventLoop (QUrl_fromLocalFile (''/work/frontend/dist'' @ ''/index.html'')) \<and>
   fst (main_cpp third_candidate_env
     \<lparr>dev_server = None, frontend_path = Some ''/work/frontend/dist''\<rparr>) \<noteq> Exit 1"
proof -
  have a: "\<not> QFileInfo_exists third_candidate_env (''/x'' @ ''/index.html'')"
    and c: "QFileInfo_exists third_candidate_env (''/work/frontend/dist'' @ ''/index.html'')"
    and d: "local_file_url_valid third_candidate_env (''/work/frontend/dist'' @ ''/index.html'')"
    by (simp_all add: third_candidate_env_def)
  from frontend_path_needs_index [of third_candidate_env "''/x''"]
    frontend_path_needs_index [of third_candidate_env "''/work/frontend/dist''"] a c d
  show ?thesis by simp
qed

text \<open>
  Claim C3 as stated fails for \<open>app/main.cpp\<close>: where \<open>index.html\<close> exists under the
  given path and \<open>QUrl::isValid\<close> rejects its file URL, the process exits with code 1
  although the file is there.
\<close>

theorem exit_with_index_present:
  "QFileInfo_exists rejected_file_url_env (''//[x'' @ ''/index.html'') \<and>
   fst (resolveFrontendUrl rejected_file_url_env
     \<lparr>dev_server = None, frontend_path = Some ''//[x''\<rparr>) =
     QUrl_fromLocalFile ''//[x/index.html'' \<and>
   fst (app_main rejected_file_url_env
     \<lparr>dev_server = None, frontend_path = Some ''//[x''\<rparr>) = Exit 1 \<and>
   \<not> (fst (app_main rejected_file_url_env
          \<lparr>dev_server = None, frontend_path = Some ''//[x''\<rparr>) = Exit 1
        \<longleftrightarrow> \<not> QFileInfo_exists rejected_file_url_env (''//[x'' @ ''/index.html''))"
  by (simp add: rejected_file_url_env_def resolveFrontendUrl_def app_main_def Let_def)

section \<open>Properties of the navigation policy\<close>

text \<open>
  Claim C4. \<open>acceptNavigationRequest\<close> intercepts a request (it returns false, so the
  page does not navigate, and hands the URL to the desktop's handler) if and only if
  the request is for the main frame, comes from a clicked link and has the scheme
  \<open>http\<close> or \<open>https\<close>. Every other request is passed to the base class unchanged and
  nothing is opened externally; the base class of Qt accepts it, so the navigation
  proceeds in the embedded renderer.
\<close>

theorem navigation_intercept_iff:
  "(\<not> fst (acceptNavigationRequest base url type isMainFrame) \<and>
    opened_externally (snd (acceptNavigationRequest base url type isMainFrame)) = [url])
     = shouldInterceptNavigation url isMainFrame (type = NavigationTypeLinkClicked) \<and>
   (\<not> shouldInterceptNavigation url isMainFrame (type = NavigationTypeLinkClicked) \<longrightarrow>
      acceptNavigationRequest base url type isMainFrame = (base url type isMainFrame, [])) \<and>
   (\<not> shouldInterceptNavigation url isMainFrame (type = NavigationTypeLinkClicked) \<longrightarrow>
      acceptNavigationRequest accept_all url type isMainFrame = (True, []))"
  by (auto simp add: acceptNavigationRequest_def shouldInterceptNavigation_def accept_all_def)

text \<open>
  A clicked link to \<open>https://example.com\<close> in the main frame is intercepted; the same
  click in a sub-frame and a clicked \<open>file:\<close> link in the main frame are not.
\<close>

theorem navigation_intercept_examples:
  "\<not> fst (acceptNavigationRequest accept_all
       \<lparr>scheme = ''https'', toString = ''https://example.com''\<rparr>
       NavigationTypeLinkClicked True) \<and>
   opened_externally (snd (acceptNavigationRequest accept_all
       \<lparr>scheme = ''https'', toString = ''https://example.com''\<rparr>
       NavigationTypeLinkClicked True)) =
     [\<lparr>scheme = ''https'', toString = ''https://example.com''\<rparr>] \<and>
   \<not> shouldInterceptNavigation \<lparr>scheme = ''https'', toString = ''https://example.com''\<rparr>
       False (NavigationTypeLinkClicked = NavigationTypeLinkClicked) \<and>
   acceptNavigationRequest accept_all
       \<lparr>scheme = ''https'', toString = ''https://example.com''\<rparr>
       NavigationTypeLinkClicked False = (True, []) \<and>
   \<not> shouldInterceptNavigation \<lparr>scheme = ''file'', toString = ''file:///x/index.html''\<rparr>
       True (NavigationTypeLinkClicked = NavigationTypeLinkClicked) \<and>
   acceptNavigationRequest accept_all
       \<lparr>scheme = ''file'', toString = ''file:///x/index.html''\<rparr>
       NavigationTypeLinkClicked True = (True, [])"
proof -
  have a: "shouldInterceptNavigation \<lparr>scheme = ''https'', toString = ''https://example.com''\<rparr>
       True (NavigationTypeLinkClicked = NavigationTypeLinkClicked)"
    and b: "\<not> shouldInterceptNavigation \<lparr>scheme = ''https'', toString = ''https://example.com''\<rparr>
       False (NavigationTypeLinkClicked = NavigationTypeLinkClicked)"
    and c: "\<not> shouldInterceptNavigation \<lparr>scheme = ''file'', toString = ''file:///x/index.html''\<rparr>
       True (NavigationTypeLinkClicked = NavigationTypeLinkClicked)"
    by (simp_all add: shouldInterceptNavigation_def)
  from a b c
    navigation_intercept_iff [of accept_all
      "\<lparr>scheme = ''https'', toString = ''https://example.com''\<rparr>"
      NavigationTypeLinkClicked True]
    navigation_intercept_iff [of accept_all
      "\<lparr>scheme = ''https'', toString = ''https://example.com''\<rparr>"
      NavigationTypeLinkClicked False]
    navigation_intercept_iff [of accept_all
      "\<lparr>scheme = ''file'', toString = ''file:///x/index.html''\<rparr>"
      NavigationTypeLinkClicked True]
  show ?thesis by blast
qed

section \<open>Properties of the context menu\<close>

text \<open>
  The menu that the statements of \<open>contextMenuEvent\<close> build is the four groups in
  their order, with one separator between neighbouring groups that are not empty.
\<close>

lemma build_menu_groups:
  "build_menu req pg =
     join_groups [standard_group pg, custom_group req, view_source_group pg, inspect_group pg]"
  by (simp add: build_menu_def Let_def QMenu_isEmpty_def standard_group_def custom_group_def
      view_source_group_def inspect_group_def)

lemma build_menu_actions:
  "filter (\<lambda>e. e \<noteq> Separator) (build_menu req pg) =
     standard_group pg @ custom_group req @ view_source_group pg @ inspect_group pg"
  by (simp add: build_menu_groups standard_group_def custom_group_def
      view_source_group_def inspect_group_def)

lemma build_menu_separator_after_standard:
  "separator_at (length (standard_group pg)) (build_menu req pg) \<longleftrightarrow>
     standard_group pg \<noteq> [] \<and>
     (linkUrl req \<noteq> [] \<or> selectedText req \<noteq> [] \<or>
      action_enabled pg ViewSource \<or> action_enabled pg InspectElement)"
  by (simp add: build_menu_groups separator_at_def standard_group_def custom_group_def
      view_source_group_def inspect_group_def)

lemma link_only_menu:
  assumes "\<not> action_enabled pg Back" "\<not> action_enabled pg Forward"
    "\<not> action_enabled pg Reload" "linkUrl req \<noteq> []" "selectedText req = []"
    "\<not> action_enabled pg ViewSource" "\<not> action_enabled pg InspectElement"
  shows "contextMenuEvent (Some req) (Some pg) = Exec [OpenLinkInExternalBrowser (linkUrl req)]"
  using assms
  by (simp add: contextMenuEvent_def build_menu_def Let_def QMenu_isEmpty_def)

text \<open>
  Claim C9, as amended. For every combination of capabilities the menu lists its
  entries in the order Back, Forward, Reload, Open Link in External Browser, Copy,
  View Source, Inspect Element, each present iff its capability holds, and its
  separators stand exactly between neighbouring non-empty groups, the groups being
  Back/Forward/Reload, link/copy, View Source, Inspect Element. A separator follows
  the Back/Forward/Reload group iff that group is non-empty and at least one of
  \<open>linkUrl\<close>, \<open>selectedText\<close>, View Source or Inspect Element is present. With only
  \<open>linkUrl\<close> present the menu shown is exactly the one entry that opens the link.
\<close>

theorem context_menu_layout:
  "build_menu req pg =
     join_groups [standard_group pg, custom_group req, view_source_group pg, inspect_group pg] \<and>
   filter (\<lambda>e. e \<noteq> Separator) (build_menu req pg) =
     standard_group pg @ custom_group req @ view_source_group pg @ inspect_group pg \<and>
   (separator_at (length (standard_group pg)) (build_menu req pg) \<longleftrightarrow>
      standard_group pg \<noteq> [] \<and>
      (linkUrl req \<noteq> [] \<or> selectedText req \<noteq> [] \<or>
       action_enabled pg ViewSource \<or> action_enabled pg InspectElement)) \<and>
   (\<not> action_enabled pg Back \<and> \<not> action_enabled pg Forward \<and> \<not> action_enabled pg Reload \<and>
    linkUrl req \<noteq> [] \<and> selectedText req = [] \<and>
    \<not> action_enabled pg ViewSource \<and> \<not> action_enabled pg InspectElement \<longrightarrow>
      contextMenuEvent (Some req) (Some pg) = Exec [OpenLinkInExternalBrowser (linkUrl req)])"
  using build_menu_groups [of req pg] build_menu_actions [of req pg]
    build_menu_separator_after_standard [of pg req] link_only_menu [of pg req]
  by blast

text \<open>
  A link under the cursor on a page that offers no action: the menu is the one entry.
  All seven capabilities at once: the full menu with its three separators.
\<close>

theorem context_menu_layout_examples:
  "contextMenuEvent (Some \<lparr>linkUrl = ''http://a'', selectedText = []\<rparr>) (Some (page_with [])) =
     Exec [OpenLinkInExternalBrowser ''http://a''] \<and>
   build_menu \<lparr>linkUrl = ''http://a'', selectedText = ''word''\<rparr>
       (page_with [Back, Forward, Reload, ViewSource, InspectElement]) =
     [PageAction Back, PageAction Forward, PageAction Reload, Separator,
      OpenLinkInExternalBrowser ''http://a'', Copy ''word'', Separator,
      PageAction ViewSource, Separator, PageAction InspectElement]"
proof -
  have "build_menu \<lparr>linkUrl = ''http://a'', selectedText = ''word''\<rparr>
       (page_with [Back, Forward, Reload, ViewSource, InspectElement]) =
     join_groups
       [standard_group (page_with [Back, Forward, Reload, ViewSource, InspectElement]),
        custom_group \<lparr>linkUrl = ''http://a'', selectedText = ''word''\<rparr>,
        view_source_group (page_with [Back, Forward, Reload, ViewSource, InspectElement]),
        inspect_group (page_with [Back, Forward, Reload, ViewSource, InspectElement])]"
    using context_menu_layout
      [of "\<lparr>linkUrl = ''http://a'', selectedText = ''word''\<rparr>"
          "page_with [Back, Forward, Reload, ViewSource, InspectElement]"]
    by blast
  moreover have
    "contextMenuEvent (Some \<lparr>linkUrl = ''http://a'', selectedText = []\<rparr>) (Some (page_with [])) =
       Exec [OpenLinkInExternalBrowser (linkUrl \<lparr>linkUrl = ''http://a'', selectedText = []\<rparr>)]"
    using context_menu_layout
      [of "\<lparr>linkUrl = ''http://a'', selectedText = []\<rparr>" "page_with []"]
    by (simp add: page_with_def action_enabled_def)
  ultimately show ?thesis
    by (simp add: page_with_def action_enabled_def standard_group_def custom_group_def
        view_source_group_def inspect_group_def)
qed

text \<open>
  Claim C9 as stated fails: on a page that can go back and show its source, with no
  link and no selection, a separator follows the Back/Forward/Reload group although
  neither \<open>linkUrl\<close> nor \<open>selectedText\<close> is present.
\<close>

theorem separator_before_view_source:
  "build_menu \<lparr>linkUrl = [], selectedText = []\<rparr> (page_with [Back, ViewSource]) =
     [PageAction Back, Separator, PageAction ViewSource] \<and>
   \<not> (separator_at (length (standard_group (page_with [Back, ViewSource])))
         (build_menu \<lparr>linkUrl = [], selectedText = []\<rparr> (page_with [Back, ViewSource]))
       \<longrightarrow>
       standard_group (page_with [Back, ViewSource]) \<noteq> [] \<and>
       (linkUrl \<lparr>linkUrl = [], selectedText = []\<rparr> \<noteq> [] \<or>
        selectedText \<lparr>linkUrl = [], selectedText = []\<rparr> \<noteq> []))"
  by (simp add: build_menu_def Let_def QMenu_isEmpty_def page_with_def action_enabled_def
      standard_group_def separator_at_def)

end
